theory Spec2Isabelle
  imports Complex_Main "HOL-Library.Word"
begin

section \<open>Unit conversions: a shallow embedding of Conversions.hpp\<close>

text \<open>
  The header defines one struct per measurement category (Speed, Distance, Rotation,
  Time, Temperature, Pressure, Mass, Area, Volume). Each category has an enumeration
  \<open>Unit\<close>, an alias table \<open>s_Lookup\<close>, a table of display symbols and (except for
  Temperature) a table of factors \<open>s_Conversion\<close>.

  Scalars. \<open>conversion_scalar_t\<close> is \<open>long double\<close> in the source. The properties studied
  here are algebraic and are stated up to floating-point rounding, so the scalar type is
  embedded as the mathematical reals: every result below is a statement about the
  formulas of the source evaluated exactly.
\<close>

type_synonym conversion_scalar_t = real

subsection \<open>Temperature\<close>

text \<open>
  \<open>enum Unit : unsigned char { Celsius, Fahrenheit, Kelvin }\<close>. Both switches of
  \<open>Temperature::Convert\<close> have a \<open>default\<close> branch for values outside the three
  enumerators, so the unit is embedded as its underlying byte.
\<close>

type_synonym Temperature_Unit = "8 word"

definition Celsius :: Temperature_Unit where "Celsius = 0"
definition Fahrenheit :: Temperature_Unit where "Fahrenheit = 1"
definition Kelvin :: Temperature_Unit where "Kelvin = 2"

definition s_PlanckTemperature :: conversion_scalar_t where
  "s_PlanckTemperature = 14200000000000000000000000000000000.0"

definition s_AbsoluteZero :: conversion_scalar_t where
  "s_AbsoluteZero = 0.0"

text \<open>\<open>throw std::runtime_error("Not implemented!")\<close> is the only failure of the header.\<close>

datatype error = NotImplemented

text \<open>The first switch of \<open>Convert\<close> (under the comment "Convert to Kelvin").\<close>

definition Temperature_to_Kelvin ::
  "conversion_scalar_t \<Rightarrow> Temperature_Unit \<Rightarrow> error + conversion_scalar_t" where
  "Temperature_to_Kelvin val from =
     (if from = Celsius then Inr (val - 272.15)
      else if from = Fahrenheit then Inr ((val + 459.67) / 1.8)
      else if from = Kelvin then Inr val
      else Inl NotImplemented)"

text \<open>The second switch of \<open>Convert\<close> (under the comment "Convert Kelvin to target").\<close>

definition Temperature_from_Kelvin ::
  "conversion_scalar_t \<Rightarrow> Temperature_Unit \<Rightarrow> error + conversion_scalar_t" where
  "Temperature_from_Kelvin result to =
     (if to = Celsius then Inr (result + 273.15)
      else if to = Fahrenheit then Inr ((result * 1.8) - 459.67)
      else if to = Kelvin then Inr result
      else Inl NotImplemented)"

text \<open>
  \<open>Convert\<close>: first switch, then \<open>result = std::max(result, s_AbsoluteZero)\<close>, then the
  second switch. An exception thrown by the first switch leaves the function at once.
\<close>

definition Temperature_Convert ::
  "conversion_scalar_t \<Rightarrow> Temperature_Unit \<Rightarrow> Temperature_Unit \<Rightarrow> error + conversion_scalar_t" where
  "Temperature_Convert val from to =
     (case Temperature_to_Kelvin val from of
        Inl e \<Rightarrow> Inl e
      | Inr result \<Rightarrow> Temperature_from_Kelvin (max result s_AbsoluteZero) to)"

text \<open>
  \<open>ClampTemperature\<close>: the inner \<open>Convert\<close> to Kelvin is evaluated first; if it throws,
  so does the whole call.
\<close>

definition ClampTemperature ::
  "conversion_scalar_t \<Rightarrow> Temperature_Unit \<Rightarrow> error + conversion_scalar_t" where
  "ClampTemperature val unit =
     (case Temperature_Convert val unit Kelvin of
        Inl e \<Rightarrow> Inl e
      | Inr k \<Rightarrow> Temperature_Convert (min k s_PlanckTemperature) Kelvin unit)"

subsection \<open>The linear categories\<close>

text \<open>
  Every other category converts by the ratio of two factors:
  \<open>return _val * (s_Conversion[_from] / s_Conversion[_to])\<close>. The enumerations are closed
  and every enumerator has one row in its factor table, so each enumeration is a datatype
  and each factor table a function on it, one equation per row in the order of the source.

  Modelled from the spec: the container \<open>Hashmap\<close> (Hashmap.hpp) is not part of the
  repository; following the specification, a factor table is a total mapping from the
  units of a category to their factors. The alias tables \<open>s_Lookup\<close> are kept as the
  lists of rows the source writes, in its order, with strings as the bytes of their
  UTF-8 encoding.
\<close>

subsubsection \<open>Speed (factors relative to metres per second)\<close>

datatype Speed_Unit =
    KilometreHour
  | FeetSecond
  | MileHour
  | Knot
  | MetreSecond
  | Mach
  | Lightspeed

definition Speed_s_Lookup :: "(string \<times> Speed_Unit) list" where
  "Speed_s_Lookup =
    [(''k/h'', KilometreHour),
     (''km/h'', KilometreHour),
     (''kph'', KilometreHour),
     (''f/s'', FeetSecond),
     (''fps'', FeetSecond),
     (''mi/h'', MileHour),
     (''mph'', MileHour),
     (''kn'', Knot),
     (''kt'', Knot),
     (''knot'', Knot),
     (''knots'', Knot),
     (''nmi/h'', Knot),
     (''nmiph'', Knot),
     (''m/s'', MetreSecond),
     (''mps'', MetreSecond),
     (''mach'', Mach),
     (''c'', Lightspeed)]"

fun Speed_s_Conversion :: "Speed_Unit \<Rightarrow> real" where
    "Speed_s_Conversion KilometreHour = 0.2777778"
  | "Speed_s_Conversion FeetSecond = 0.3048"
  | "Speed_s_Conversion MileHour = 0.44704"
  | "Speed_s_Conversion Knot = 0.514444"
  | "Speed_s_Conversion MetreSecond = 1.0"
  | "Speed_s_Conversion Mach = 340.29"
  | "Speed_s_Conversion Lightspeed = 299792458.0"

definition Speed_Convert :: "real \<Rightarrow> Speed_Unit \<Rightarrow> Speed_Unit \<Rightarrow> real" where
  "Speed_Convert val from to = val * (Speed_s_Conversion from / Speed_s_Conversion to)"

subsubsection \<open>Distance (factors relative to metres)\<close>

datatype Distance_Unit =
    Millimetre
  | Centimetre
  | Inch
  | Foot
  | Yard
  | Metre
  | Kilometre
  | Mile
  | NauticalMile
  | AstronomicalUnit
  | Lightyear
  | Parsec

definition Distance_s_Lookup :: "(string \<times> Distance_Unit) list" where
  "Distance_s_Lookup =
    [(''mm'', Millimetre),
     (''cm'', Centimetre),
     ([CHR 0x22], Inch),
     (''in'', Inch),
     (''f'', Foot),
     ([CHR 0x27], Foot),
     (''ft'', Foot),
     (''yards'', Yard),
     (''yard'', Yard),
     (''yd'', Yard),
     (''m'', Metre),
     (''km'', Kilometre),
     (''mi'', Mile),
     (''nmi'', NauticalMile),
     (''au'', AstronomicalUnit),
     (''ly'', Lightyear),
     (''lightyear'', Lightyear),
     (''lightyears'', Lightyear),
     (''pc'', Parsec),
     (''parsec'', Parsec),
     (''parsecs'', Parsec)]"

fun Distance_s_Conversion :: "Distance_Unit \<Rightarrow> real" where
    "Distance_s_Conversion Millimetre = 0.001"
  | "Distance_s_Conversion Centimetre = 0.01"
  | "Distance_s_Conversion Inch = 0.0254"
  | "Distance_s_Conversion Foot = 0.30479999"
  | "Distance_s_Conversion Yard = 0.9144"
  | "Distance_s_Conversion Metre = 1.0"
  | "Distance_s_Conversion Kilometre = 1000.0"
  | "Distance_s_Conversion Mile = 1609.344"
  | "Distance_s_Conversion NauticalMile = 1852.0"
  | "Distance_s_Conversion AstronomicalUnit = 149597870700.0"
  | "Distance_s_Conversion Lightyear = 9460730472580800.0"
  | "Distance_s_Conversion Parsec = 30856775810000000.0"

definition Distance_Convert :: "real \<Rightarrow> Distance_Unit \<Rightarrow> Distance_Unit \<Rightarrow> real" where
  "Distance_Convert val from to = val * (Distance_s_Conversion from / Distance_s_Conversion to)"

subsubsection \<open>Rotation (factors relative to degrees)\<close>

datatype Rotation_Unit =
    Gradian
  | Degree
  | Radian
  | Turn

definition Rotation_s_Lookup :: "(string \<times> Rotation_Unit) list" where
  "Rotation_s_Lookup =
    [(''grad'', Gradian),
     (''gradians'', Gradian),
     ([CHR 0xC2, CHR 0xB0], Degree),
     (''d'', Degree),
     (''deg'', Degree),
     (''degree'', Degree),
     (''degrees'', Degree),
     (''rad'', Radian),
     (''radians'', Radian),
     (''turns'', Turn),
     (''turn'', Turn),
     (''cycle'', Turn),
     (''pla'', Turn),
     (''rev'', Turn),
     (''tr'', Turn)]"

fun Rotation_s_Conversion :: "Rotation_Unit \<Rightarrow> real" where
    "Rotation_s_Conversion Gradian = 0.9"
  | "Rotation_s_Conversion Degree = 1.0"
  | "Rotation_s_Conversion Radian = 57.29578"
  | "Rotation_s_Conversion Turn = 360.0"

definition Rotation_Convert :: "real \<Rightarrow> Rotation_Unit \<Rightarrow> Rotation_Unit \<Rightarrow> real" where
  "Rotation_Convert val from to = val * (Rotation_s_Conversion from / Rotation_s_Conversion to)"

subsubsection \<open>Time (factors relative to seconds)\<close>

datatype Time_Unit =
    Nanosecond
  | Microsecond
  | Millisecond
  | Second
  | Minute
  | Hour
  | Day

definition Time_s_Lookup :: "(string \<times> Time_Unit) list" where
  "Time_s_Lookup =
    [(''nanosecond'', Nanosecond),
     (''nanoseconds'', Nanosecond),
     (''ns'', Nanosecond),
     (''microsecond'', Microsecond),
     (''microseconds'', Microsecond),
     ([CHR 0xC2, CHR 0xB5] @ ''s'', Microsecond),
     (''millisecond'', Millisecond),
     (''milliseconds'', Millisecond),
     (''ms'', Millisecond),
     (''s'', Second),
     (''sec'', Second),
     (''seconds'', Second),
     (''secs'', Second),
     (''m'', Minute),
     (''min'', Minute),
     (''minute'', Minute),
     (''minutes'', Minute),
     (''h'', Hour),
     (''hour'', Hour),
     (''hours'', Hour),
     (''hr'', Hour),
     (''d'', Day),
     (''day'', Day),
     (''days'', Day)]"

fun Time_s_Conversion :: "Time_Unit \<Rightarrow> real" where
    "Time_s_Conversion Nanosecond = 0.000000001"
  | "Time_s_Conversion Microsecond = 0.000001"
  | "Time_s_Conversion Millisecond = 0.001"
  | "Time_s_Conversion Second = 1.0"
  | "Time_s_Conversion Minute = 60.0"
  | "Time_s_Conversion Hour = 3600.0"
  | "Time_s_Conversion Day = 86400.0"

definition Time_Convert :: "real \<Rightarrow> Time_Unit \<Rightarrow> Time_Unit \<Rightarrow> real" where
  "Time_Convert val from to = val * (Time_s_Conversion from / Time_s_Conversion to)"

subsubsection \<open>Pressure (factors relative to atmospheres)\<close>

datatype Pressure_Unit =
    DyneSquareCentimetre
  | MilliTorr
  | Pascal
  | MillimetreWater
  | PoundSquareFoot
  | Hectopascal
  | CentimetreWater
  | MillimetreMercury
  | InchWater
  | OunceSquareInch
  | Decibel
  | Kilopascal
  | CentimetreMercury
  | FeetWater
  | InchMercury
  | PoundSquareInch
  | MetreWater
  | TonneSquareFoot_Short
  | TechnicalAtmosphere
  | KilogramSquareCentimetre
  | Bar
  | Atmosphere
  | Megapascal
  | TonneSquareInch_Short
  | TonneSquareInch_Long

definition Pressure_s_Lookup :: "(string \<times> Pressure_Unit) list" where
  "Pressure_s_Lookup =
    [(''dyn/cm'' @ [CHR 0xC2, CHR 0xB2], DyneSquareCentimetre),
     (''dyn/cm^2'', DyneSquareCentimetre),
     (''dyn/cm2'', DyneSquareCentimetre),
     (''mTorr'', MilliTorr),
     (''pascals'', Pascal),
     (''pascal'', Pascal),
     (''pa'', Pascal),
     (''Pa'', Pascal),
     (''N/m'' @ [CHR 0xC2, CHR 0xB2], Pascal),
     (''N/m^2'', Pascal),
     (''N/m2'', Pascal),
     (''mmH2O'', MillimetreWater),
     (''psf'', PoundSquareFoot),
     (''millibars'', Hectopascal),
     (''millibar'', Hectopascal),
     (''mbar'', Hectopascal),
     (''hPa'', Hectopascal),
     (''hectopascals'', Hectopascal),
     (''hectopascal'', Hectopascal),
     (''cmH2O'', CentimetreWater),
     (''mmHg'', MillimetreMercury),
     (''inH20'', InchWater),
     (''oz/in'' @ [CHR 0xC2, CHR 0xB2], OunceSquareInch),
     (''oz/in^2'', OunceSquareInch),
     (''oz/in2'', OunceSquareInch),
     (''dB'', Decibel),
     (''decibel'', Decibel),
     (''decibels'', Decibel),
     (''kpa'', Kilopascal),
     (''kPa'', Kilopascal),
     (''kilopascals'', Kilopascal),
     (''kilopascal'', Kilopascal),
     (''cmHg'', CentimetreMercury),
     (''ftH2O'', FeetWater),
     (''inHg'', InchMercury),
     (''psi'', PoundSquareInch),
     (''mH2O'', MetreWater),
     (''tsf'', TonneSquareFoot_Short),
     (''tsf_us'', TonneSquareFoot_Short),
     (''tsf_short'', TonneSquareFoot_Short),
     (''at'', TechnicalAtmosphere),
     (''kg/cm'' @ [CHR 0xC2, CHR 0xB2], KilogramSquareCentimetre),
     (''kg/cm^2'', KilogramSquareCentimetre),
     (''kg/cm2'', KilogramSquareCentimetre),
     (''bars'', Bar),
     (''bar'', Bar),
     (''atmospheres'', Atmosphere),
     (''atmosphere'', Atmosphere),
     (''atm'', Atmosphere),
     (''MPa'', Megapascal),
     (''megapascals'', Megapascal),
     (''megapascal'', Megapascal),
     (''tsi'', TonneSquareInch_Short),
     (''tsi_us'', TonneSquareInch_Short),
     (''tsi_short'', TonneSquareInch_Short),
     (''tsi_uk'', TonneSquareInch_Long),
     (''tsi_long'', TonneSquareInch_Long)]"

fun Pressure_s_Conversion :: "Pressure_Unit \<Rightarrow> real" where
    "Pressure_s_Conversion DyneSquareCentimetre = 0.000000987"
  | "Pressure_s_Conversion MilliTorr = 0.000001316"
  | "Pressure_s_Conversion Pascal = 0.000009869"
  | "Pressure_s_Conversion MillimetreWater = 0.000096784"
  | "Pressure_s_Conversion PoundSquareFoot = 0.000472541"
  | "Pressure_s_Conversion Hectopascal = 0.000986923"
  | "Pressure_s_Conversion CentimetreWater = 0.000967839"
  | "Pressure_s_Conversion MillimetreMercury = 0.001315789"
  | "Pressure_s_Conversion InchWater = 0.002458319"
  | "Pressure_s_Conversion OunceSquareInch = 0.004252876"
  | "Pressure_s_Conversion Decibel = 0.005154639"
  | "Pressure_s_Conversion Kilopascal = 0.009869233"
  | "Pressure_s_Conversion CentimetreMercury = 0.013157895"
  | "Pressure_s_Conversion FeetWater = 0.02949983"
  | "Pressure_s_Conversion InchMercury = 0.033421008"
  | "Pressure_s_Conversion PoundSquareInch = 0.06804619"
  | "Pressure_s_Conversion MetreWater = 0.096783872"
  | "Pressure_s_Conversion TonneSquareFoot_Short = 0.945081324"
  | "Pressure_s_Conversion TechnicalAtmosphere = 0.967838719"
  | "Pressure_s_Conversion KilogramSquareCentimetre = 0.967838719"
  | "Pressure_s_Conversion Bar = 0.986923267"
  | "Pressure_s_Conversion Atmosphere = 1.0"
  | "Pressure_s_Conversion Megapascal = 9.869232667"
  | "Pressure_s_Conversion TonneSquareInch_Short = 136.092009086"
  | "Pressure_s_Conversion TonneSquareInch_Long = 152.422992094"

definition Pressure_Convert :: "real \<Rightarrow> Pressure_Unit \<Rightarrow> Pressure_Unit \<Rightarrow> real" where
  "Pressure_Convert val from to = val * (Pressure_s_Conversion from / Pressure_s_Conversion to)"

subsubsection \<open>Mass (factors relative to kilograms)\<close>

datatype Mass_Unit =
    Nanogram
  | Microgram
  | Milligram
  | Gram
  | Ounce
  | Pound
  | Kilogram
  | Ton
  | Kiloton
  | Megaton
  | Gigaton

definition Mass_s_Lookup :: "(string \<times> Mass_Unit) list" where
  "Mass_s_Lookup =
    [(''nanogram'', Nanogram),
     (''nanogramme'', Nanogram),
     (''nanogrammes'', Nanogram),
     (''nanograms'', Nanogram),
     (''ng'', Nanogram),
     (''microgram'', Microgram),
     (''microgramme'', Microgram),
     (''microgrammes'', Microgram),
     (''micrograms'', Microgram),
     ([CHR 0xCE, CHR 0xBC] @ ''g'', Microgram),
     (''mg'', Milligram),
     (''milligram'', Milligram),
     (''milligramme'', Milligram),
     (''milligrammes'', Milligram),
     (''milligrams'', Milligram),
     (''g'', Gram),
     (''gram'', Gram),
     (''gramme'', Gram),
     (''grammes'', Gram),
     (''grams'', Gram),
     (''ounce'', Ounce),
     (''oz'', Ounce),
     (''lb'', Pound),
     (''pound'', Pound),
     (''kg'', Kilogram),
     (''kilogram'', Kilogram),
     (''kilogramme'', Kilogram),
     (''kilogrammes'', Kilogram),
     (''kilograms'', Kilogram),
     (''t'', Ton),
     (''ton'', Ton),
     (''tonne'', Ton),
     (''tonnes'', Ton),
     (''tons'', Ton),
     (''kilotonne'', Kiloton),
     (''kiloton'', Kiloton),
     (''kilotonnes'', Kiloton),
     (''kilotons'', Kiloton),
     (''kt'', Kiloton),
     (''megaton'', Megaton),
     (''megatonne'', Megaton),
     (''megatonnes'', Megaton),
     (''megatons'', Megaton),
     (''Mt'', Megaton),
     (''gigaton'', Gigaton),
     (''gigatonne'', Gigaton),
     (''gigatonnes'', Gigaton),
     (''gigatons'', Gigaton),
     (''Gt'', Gigaton)]"

fun Mass_s_Conversion :: "Mass_Unit \<Rightarrow> real" where
    "Mass_s_Conversion Nanogram = 0.000000000001"
  | "Mass_s_Conversion Microgram = 0.000000001"
  | "Mass_s_Conversion Milligram = 0.000001"
  | "Mass_s_Conversion Gram = 0.001"
  | "Mass_s_Conversion Ounce = 0.02834952"
  | "Mass_s_Conversion Pound = 0.4535923"
  | "Mass_s_Conversion Kilogram = 1.0"
  | "Mass_s_Conversion Ton = 1000.0"
  | "Mass_s_Conversion Kiloton = 1000000.0"
  | "Mass_s_Conversion Megaton = 1000000000.0"
  | "Mass_s_Conversion Gigaton = 1000000000000.0"

definition Mass_Convert :: "real \<Rightarrow> Mass_Unit \<Rightarrow> Mass_Unit \<Rightarrow> real" where
  "Mass_Convert val from to = val * (Mass_s_Conversion from / Mass_s_Conversion to)"

subsubsection \<open>Area (factors relative to square metres)\<close>

datatype Area_Unit =
    SquareMillimetre
  | SquareCentimetre
  | SquareInch
  | SquareMetre
  | SquareFoot
  | Acre
  | Hectare
  | SquareYard

definition Area_s_Lookup :: "(string \<times> Area_Unit) list" where
  "Area_s_Lookup =
    [(''mm2'', SquareMillimetre),
     (''mm^2'', SquareMillimetre),
     (''mm'' @ [CHR 0xC2, CHR 0xB2], SquareMillimetre),
     (''cm2'', SquareCentimetre),
     (''cm^2'', SquareCentimetre),
     (''cm'' @ [CHR 0xC2, CHR 0xB2], SquareCentimetre),
     ([CHR 0x22, CHR 0xC2, CHR 0xB2], SquareInch),
     (''in2'', SquareInch),
     (''in^2'', SquareInch),
     (''in'' @ [CHR 0xC2, CHR 0xB2], SquareInch),
     ([CHR 0x27] @ ''2'', SquareFoot),
     (''ft2'', SquareFoot),
     (''ft^2'', SquareFoot),
     (''ft'' @ [CHR 0xC2, CHR 0xB2], SquareFoot),
     (''yd2'', SquareYard),
     (''yd^2'', SquareYard),
     (''yd'' @ [CHR 0xC2, CHR 0xB2], SquareYard),
     (''m2'', SquareMetre),
     (''m^2'', SquareMetre),
     (''m'' @ [CHR 0xC2, CHR 0xB2], SquareMetre),
     (''ac'', Acre),
     (''acre'', Acre),
     (''ha'', Hectare),
     (''hectare'', Hectare)]"

fun Area_s_Conversion :: "Area_Unit \<Rightarrow> real" where
    "Area_s_Conversion SquareMillimetre = 0.000001"
  | "Area_s_Conversion SquareCentimetre = 0.0001"
  | "Area_s_Conversion SquareInch = 0.00064516"
  | "Area_s_Conversion SquareFoot = 0.09290304"
  | "Area_s_Conversion SquareYard = 0.83612736"
  | "Area_s_Conversion SquareMetre = 1.0"
  | "Area_s_Conversion Acre = 4046.8564224"
  | "Area_s_Conversion Hectare = 10000.0"

definition Area_Convert :: "real \<Rightarrow> Area_Unit \<Rightarrow> Area_Unit \<Rightarrow> real" where
  "Area_Convert val from to = val * (Area_s_Conversion from / Area_s_Conversion to)"

subsubsection \<open>Volume (factors relative to cubic metres)\<close>

datatype Volume_Unit =
    Millilitre
  | Centilitre
  | CubicInch
  | FluidOunce
  | Cup
  | Pint
  | Quart
  | Litre
  | Gallon
  | CubicFoot
  | Barrel
  | CubicYard
  | CubicMetre

definition Volume_s_Lookup :: "(string \<times> Volume_Unit) list" where
  "Volume_s_Lookup =
    [(''milliliter'', Millilitre),
     (''millilitre'', Millilitre),
     (''ml'', Millilitre),
     (''centiliter'', Centilitre),
     (''centilitre'', Centilitre),
     (''cl'', Centilitre),
     ([CHR 0x22] @ ''3'', CubicInch),
     ([CHR 0x22] @ ''^3'', CubicInch),
     ([CHR 0x22, CHR 0xC2, CHR 0xB3], CubicInch),
     (''cu in'', CubicInch),
     (''cu. in'', CubicInch),
     (''cu. in.'', CubicInch),
     (''in. cu'', CubicInch),
     (''in. cu.'', CubicInch),
     (''in3'', CubicInch),
     (''in^3'', CubicInch),
     (''in'' @ [CHR 0xC2, CHR 0xB3], CubicInch),
     (''fl oz'', FluidOunce),
     (''fl '' @ [CHR 0xE2, CHR 0x84, CHR 0xA5], FluidOunce),
     (''fl. oz'', FluidOunce),
     (''fl/oz'', FluidOunce),
     (''floz'', FluidOunce),
     (''f'' @ [CHR 0xE2, CHR 0x84, CHR 0xA5], FluidOunce),
     (''oz. fl'', FluidOunce),
     (''oz. fl.'', FluidOunce),
     ([CHR 0xC6, CHR 0x92] @ '' '' @ [CHR 0xE2, CHR 0x84, CHR 0xA5], FluidOunce),
     ([CHR 0xE2, CHR 0x84, CHR 0xA5], FluidOunce),
     (''cup'', Cup),
     (''cups'', Cup),
     (''p'', Pint),
     (''pint'', Pint),
     (''pt'', Pint),
     (''qt'', Quart),
     (''quart'', Quart),
     (''l'', Litre),
     (''liter'', Litre),
     (''litre'', Litre),
     (''gal'', Gallon),
     (''gallon'', Gallon),
     ([CHR 0x27] @ ''3'', CubicFoot),
     ([CHR 0x27] @ ''^3'', CubicFoot),
     ([CHR 0x27, CHR 0xC2, CHR 0xB3], CubicFoot),
     (''cu f'', CubicFoot),
     (''cu ft'', CubicFoot),
     (''cu. f'', CubicFoot),
     (''cu. f.'', CubicFoot),
     (''cu. ft'', CubicFoot),
     (''cu. ft.'', CubicFoot),
     (''f. cu'', CubicFoot),
     (''f. cu.'', CubicFoot),
     (''f^3'', CubicFoot),
     (''ft. cu'', CubicFoot),
     (''ft. cu.'', CubicFoot),
     (''ft3'', CubicFoot),
     (''ft^3'', CubicFoot),
     (''ft'' @ [CHR 0xC2, CHR 0xB3], CubicFoot),
     (''f'' @ [CHR 0xC2, CHR 0xB3], CubicFoot),
     (''in3'', CubicFoot),
     (''barrel'', Barrel),
     (''barrels'', Barrel),
     (''bbl'', Barrel),
     (''yd3'', CubicYard),
     (''yd^3'', CubicYard),
     (''yd'' @ [CHR 0xC2, CHR 0xB3], CubicYard),
     (''m3'', CubicMetre),
     (''m^3'', CubicMetre),
     (''m'' @ [CHR 0xC2, CHR 0xB3], CubicMetre)]"

fun Volume_s_Conversion :: "Volume_Unit \<Rightarrow> real" where
    "Volume_s_Conversion Millilitre = 0.000001"
  | "Volume_s_Conversion Centilitre = 0.00001"
  | "Volume_s_Conversion CubicInch = 0.000016387064"
  | "Volume_s_Conversion FluidOunce = 0.000029574"
  | "Volume_s_Conversion Cup = 0.000237"
  | "Volume_s_Conversion Pint = 0.000473176473"
  | "Volume_s_Conversion Quart = 0.000946"
  | "Volume_s_Conversion Litre = 0.001"
  | "Volume_s_Conversion Gallon = 0.003785411784"
  | "Volume_s_Conversion CubicFoot = 0.028316846592"
  | "Volume_s_Conversion Barrel = 0.158987294928"
  | "Volume_s_Conversion CubicYard = 0.764554858"
  | "Volume_s_Conversion CubicMetre = 1.0"

definition Volume_Convert :: "real \<Rightarrow> Volume_Unit \<Rightarrow> Volume_Unit \<Rightarrow> real" where
  "Volume_Convert val from to = val * (Volume_s_Conversion from / Volume_s_Conversion to)"

subsubsection \<open>Temperature aliases\<close>

definition Temperature_s_Lookup :: "(string \<times> 8 word) list" where
  "Temperature_s_Lookup =
    [(''celsius'', Celsius),
     (''c'', Celsius),
     ([CHR 0xC2, CHR 0xB0] @ ''c'', Celsius),
     ([CHR 0xC2, CHR 0xB0] @ ''C'', Celsius),
     (''fahrenheit'', Fahrenheit),
     (''f'', Fahrenheit),
     ([CHR 0xC2, CHR 0xB0] @ ''f'', Fahrenheit),
     ([CHR 0xC2, CHR 0xB0] @ ''F'', Fahrenheit),
     (''kelvin'', Kelvin),
     (''k'', Kelvin),
     (''K'', Kelvin)]"

subsection \<open>Geospatial distance\<close>

text \<open>
  Modelled from the spec: \<open>M_PI\<close> comes from the C library header and is not part of the
  repository; the specification gives the degrees-to-radians factor as \<open>\<pi>/180\<close>.
\<close>

definition s_DegreesToRadians :: conversion_scalar_t where
  "s_DegreesToRadians = pi / 180.0"

definition ArcSecondsToMetres :: "conversion_scalar_t \<Rightarrow> conversion_scalar_t \<Rightarrow> conversion_scalar_t" where
  "ArcSecondsToMetres arcSeconds lat =
     arcSeconds * \<bar>cos (s_DegreesToRadians * lat) * (1852.0 / 60.0)\<bar>"

definition MetresToArcSeconds :: "conversion_scalar_t \<Rightarrow> conversion_scalar_t \<Rightarrow> conversion_scalar_t" where
  "MetresToArcSeconds metres lat =
     metres * \<bar>cos (s_DegreesToRadians * lat) / (1852.0 / 60.0)\<bar>"

text \<open>The calls with the optional latitude left out (\<open>_lat = 0.0\<close>).\<close>

definition ArcSecondsToMetres_default :: "conversion_scalar_t \<Rightarrow> conversion_scalar_t" where
  "ArcSecondsToMetres_default arcSeconds = ArcSecondsToMetres arcSeconds 0.0"

definition MetresToArcSeconds_default :: "conversion_scalar_t \<Rightarrow> conversion_scalar_t" where
  "MetresToArcSeconds_default metres = MetresToArcSeconds metres 0.0"

section \<open>Properties\<close>

lemma Temperature_units_distinct:
  "Celsius \<noteq> Fahrenheit" "Celsius \<noteq> Kelvin" "Fahrenheit \<noteq> Kelvin"
  "Fahrenheit \<noteq> Celsius" "Kelvin \<noteq> Celsius" "Kelvin \<noteq> Fahrenheit"
  by (simp_all add: Celsius_def Fahrenheit_def Kelvin_def)

lemmas Temperature_defs =
  Temperature_Convert_def Temperature_to_Kelvin_def Temperature_from_Kelvin_def
  s_AbsoluteZero_def

subsection \<open>The Celsius offset\<close>

text \<open>
  C1. The claim: a Celsius source value reaches the Kelvin hub by adding the offset
  272.15, and \<open>Convert(0.0, Kelvin, Celsius)\<close> yields that offset exactly. The first
  switch of the source subtracts 272.15 instead, and the second switch adds 273.15:
  300 degrees Celsius become 27.85 K rather than 572.15 K, and 0 K becomes 273.15
  rather than 272.15.
\<close>

theorem Temperature_Convert_Celsius_offset_eval:
  "Temperature_Convert 300 Celsius Kelvin = Inr 27.85
   \<and> Temperature_Convert 300 Celsius Kelvin \<noteq> Inr (300 + 272.15)
   \<and> Temperature_Convert 0 Kelvin Celsius = Inr 273.15
   \<and> Temperature_Convert 0 Kelvin Celsius \<noteq> Inr 272.15"
  by (simp add: Temperature_defs Temperature_units_distinct)

subsection \<open>The absolute-zero floor\<close>

text \<open>
  C4. \<open>Convert\<close> clamps the intermediate Kelvin value to a floor of 0 K between the two
  switches: the result is the second switch applied to \<open>max k 0\<close>, where \<open>k\<close> is what the
  first switch computed; when \<open>k\<close> is below 0 K the result is that of converting exactly
  0 K; for all units of the enumeration a conversion followed by a conversion of its
  result to Kelvin succeeds and is never negative; and \<open>Convert(-500, Celsius, Kelvin)\<close>
  is 0.
\<close>

theorem Temperature_Convert_absolute_zero_floor:
  "(Temperature_to_Kelvin val from = Inr k \<longrightarrow>
      Temperature_Convert val from to = Temperature_from_Kelvin (max k 0) to)
   \<and> (Temperature_to_Kelvin val from = Inr k \<and> k < 0 \<longrightarrow>
      Temperature_Convert val from to = Temperature_Convert 0 Kelvin to)
   \<and> (from \<in> {Celsius, Fahrenheit, Kelvin} \<and> to \<in> {Celsius, Fahrenheit, Kelvin} \<longrightarrow>
      (\<exists>r k'. Temperature_Convert val from to = Inr r
          \<and> Temperature_Convert r to Kelvin = Inr k' \<and> 0 \<le> k'))
   \<and> Temperature_Convert (-500) Celsius Kelvin = Inr 0"
  by (auto simp add: Temperature_defs Temperature_units_distinct split: sum.splits if_splits)

theorem Temperature_Convert_absolute_zero_floor_witness:
  "Temperature_to_Kelvin (-500) Celsius = Inr (-772.15) \<and> (-772.15 :: real) < 0
   \<and> Temperature_Convert (-500) Celsius Fahrenheit = Temperature_from_Kelvin 0 Fahrenheit
   \<and> Temperature_Convert (-500) Celsius Fahrenheit = Temperature_Convert 0 Kelvin Fahrenheit
   \<and> Celsius \<in> {Celsius, Fahrenheit, Kelvin} \<and> Fahrenheit \<in> {Celsius, Fahrenheit, Kelvin}
   \<and> (\<exists>r k'. Temperature_Convert (-500) Celsius Fahrenheit = Inr r
         \<and> Temperature_Convert r Fahrenheit Kelvin = Inr k' \<and> 0 \<le> k')"
proof -
  have h: "Temperature_to_Kelvin (-500) Celsius = Inr (-772.15)"
    by (simp add: Temperature_to_Kelvin_def)
  show ?thesis
    using h Temperature_Convert_absolute_zero_floor [of "-500" Celsius "-772.15" Fahrenheit]
    by (auto simp add: Temperature_defs Temperature_units_distinct)
qed

subsection \<open>Units outside the enumeration\<close>

text \<open>
  C9. \<open>Convert\<close> throws "Not implemented!" (and returns no value) exactly when the from-unit
  or the to-unit is none of Celsius, Fahrenheit, Kelvin; for units among these three it
  returns a value.
\<close>

theorem Temperature_Convert_not_implemented:
  "(from \<in> {Celsius, Fahrenheit, Kelvin} \<and> to \<in> {Celsius, Fahrenheit, Kelvin}
      \<longrightarrow> (\<exists>r. Temperature_Convert val from to = Inr r))
   \<and> (from \<notin> {Celsius, Fahrenheit, Kelvin} \<or> to \<notin> {Celsius, Fahrenheit, Kelvin}
      \<longrightarrow> Temperature_Convert val from to = Inl NotImplemented)"
  by (auto simp add: Temperature_defs)

theorem Temperature_Convert_not_implemented_witness:
  "Celsius \<in> {Celsius, Fahrenheit, Kelvin} \<and> Fahrenheit \<in> {Celsius, Fahrenheit, Kelvin}
   \<and> (\<exists>r. Temperature_Convert 20 Celsius Fahrenheit = Inr r)
   \<and> (3 :: Temperature_Unit) \<notin> {Celsius, Fahrenheit, Kelvin}
   \<and> Temperature_Convert 20 3 Kelvin = Inl NotImplemented
   \<and> Temperature_Convert 20 Kelvin 3 = Inl NotImplemented"
  using Temperature_Convert_not_implemented [of Celsius Fahrenheit 20]
    Temperature_Convert_not_implemented [of 3 Kelvin 20]
    Temperature_Convert_not_implemented [of Kelvin 3 20]
  by (simp add: Celsius_def Fahrenheit_def Kelvin_def)

subsection \<open>Supporting facts\<close>

text \<open>Every factor of every table is non-zero, so the ratio of the source never divides by 0.\<close>

lemma Speed_s_Conversion_nonzero: "Speed_s_Conversion u \<noteq> 0" by (cases u) simp_all
lemma Distance_s_Conversion_nonzero: "Distance_s_Conversion u \<noteq> 0" by (cases u) simp_all
lemma Rotation_s_Conversion_nonzero: "Rotation_s_Conversion u \<noteq> 0" by (cases u) simp_all
lemma Time_s_Conversion_nonzero: "Time_s_Conversion u \<noteq> 0" by (cases u) simp_all
lemma Pressure_s_Conversion_nonzero: "Pressure_s_Conversion u \<noteq> 0" by (cases u) simp_all
lemma Mass_s_Conversion_nonzero: "Mass_s_Conversion u \<noteq> 0" by (cases u) simp_all
lemma Area_s_Conversion_nonzero: "Area_s_Conversion u \<noteq> 0" by (cases u) simp_all
lemma Volume_s_Conversion_nonzero: "Volume_s_Conversion u \<noteq> 0" by (cases u) simp_all

lemmas s_Conversion_nonzero =
  Speed_s_Conversion_nonzero Distance_s_Conversion_nonzero Rotation_s_Conversion_nonzero
  Time_s_Conversion_nonzero Pressure_s_Conversion_nonzero Mass_s_Conversion_nonzero
  Area_s_Conversion_nonzero Volume_s_Conversion_nonzero

lemmas linear_Convert_defs =
  Speed_Convert_def Distance_Convert_def Rotation_Convert_def Time_Convert_def
  Pressure_Convert_def Mass_Convert_def Area_Convert_def Volume_Convert_def

lemma linear_Convert_identity:
  "Speed_Convert v su su = v" "Distance_Convert v du du = v" "Rotation_Convert v ru ru = v"
  "Time_Convert v tu tu = v" "Pressure_Convert v pu pu = v" "Mass_Convert v mu mu = v"
  "Area_Convert v au au = v" "Volume_Convert v vu vu = v"
  by (simp_all add: linear_Convert_defs s_Conversion_nonzero)

lemma linear_Convert_round_trip:
  "Speed_Convert (Speed_Convert v sa sb) sb sa = v"
  "Distance_Convert (Distance_Convert v da db) db da = v"
  "Rotation_Convert (Rotation_Convert v ra rb) rb ra = v"
  "Time_Convert (Time_Convert v ta tb) tb ta = v"
  "Pressure_Convert (Pressure_Convert v pa pb) pb pa = v"
  "Mass_Convert (Mass_Convert v ma mb) mb ma = v"
  "Area_Convert (Area_Convert v aa ab) ab aa = v"
  "Volume_Convert (Volume_Convert v va vb) vb va = v"
  by (simp_all add: linear_Convert_defs s_Conversion_nonzero)

text \<open>Closed forms of \<open>Temperature::Convert\<close> between Kelvin and Fahrenheit.\<close>

lemma Temperature_Convert_Kelvin_Kelvin:
  "Temperature_Convert v Kelvin Kelvin = Inr (max v 0)"
  by (simp add: Temperature_defs Temperature_units_distinct)

lemma Temperature_Convert_Kelvin_Fahrenheit:
  "Temperature_Convert v Kelvin Fahrenheit = Inr (max v 0 * 1.8 - 459.67)"
  by (simp add: Temperature_defs Temperature_units_distinct)

lemma Temperature_Convert_Fahrenheit_Kelvin:
  "Temperature_Convert v Fahrenheit Kelvin = Inr (max ((v + 459.67) / 1.8) 0)"
  by (simp add: Temperature_defs Temperature_units_distinct)

lemma Fahrenheit_scale_back: "(v + 459.67) / 1.8 * 1.8 - 459.67 = (v::real)"
  by (simp add: field_simps)

lemma Fahrenheit_there_and_back:
  "max ((v + 459.67) / 1.8) 0 * 1.8 - 459.67 = max v (- 459.67 :: real)"
proof (cases "- 459.67 \<le> v")
  case True
  then have "0 \<le> (v + 459.67) / 1.8" by simp
  then have "max ((v + 459.67) / 1.8) 0 = (v + 459.67) / 1.8" by (rule max_absorb1)
  moreover have "max v (- 459.67) = v" using True by (rule max_absorb1)
  ultimately show ?thesis by (simp only: Fahrenheit_scale_back)
next
  case False
  then have "(v + 459.67) / 1.8 \<le> 0" by simp
  then have "max ((v + 459.67) / 1.8) 0 = 0" by (rule max_absorb2)
  moreover have "max v (- 459.67) = - 459.67" using False by (intro max_absorb2) simp
  ultimately show ?thesis by (simp only:)
qed

lemma Temperature_Convert_Fahrenheit_Fahrenheit:
  "Temperature_Convert v Fahrenheit Fahrenheit = Inr (max v (- 459.67))"
  unfolding Temperature_defs using Fahrenheit_there_and_back [of v]
  by (simp add: Temperature_units_distinct del: max_less_iff_conj)

lemmas Temperature_Convert_closed_forms =
  Temperature_Convert_Kelvin_Kelvin Temperature_Convert_Kelvin_Fahrenheit
  Temperature_Convert_Fahrenheit_Kelvin Temperature_Convert_Fahrenheit_Fahrenheit
lemma Temperature_switches_inverse:
  "a \<in> {Fahrenheit, Kelvin} \<Longrightarrow> Temperature_to_Kelvin v a = Inr k
   \<Longrightarrow> Temperature_from_Kelvin k a = Inr v"
  by (auto simp add: Temperature_to_Kelvin_def Temperature_from_Kelvin_def Temperature_units_distinct)

lemma Temperature_round_trip_above_zero:
  assumes "a \<in> {Fahrenheit, Kelvin}" "b \<in> {Fahrenheit, Kelvin}"
    and "Temperature_from_Kelvin 0 a = Inr z" "z \<le> v"
  shows "\<exists>w. Temperature_Convert v a b = Inr w \<and> Temperature_Convert w b a = Inr v"
proof -
  consider (KK) "a = Kelvin" "b = Kelvin" | (KF) "a = Kelvin" "b = Fahrenheit"
    | (FK) "a = Fahrenheit" "b = Kelvin" | (FF) "a = Fahrenheit" "b = Fahrenheit"
    using assms(1,2) by auto
  then show ?thesis
  proof cases
    case KK
    with assms(3,4) have "0 \<le> v"
      by (simp add: Temperature_from_Kelvin_def Temperature_units_distinct)
    with KK show ?thesis
      by (simp add: Temperature_Convert_closed_forms max_def)
  next
    case KF
    with assms(3,4) have "0 \<le> v"
      by (simp add: Temperature_from_Kelvin_def Temperature_units_distinct)
    with KF show ?thesis
      by (simp add: Temperature_Convert_closed_forms max_def)
  next
    case FK
    with assms(3,4) have "- 459.67 \<le> v"
      by (auto simp add: Temperature_from_Kelvin_def Temperature_units_distinct)
    then have "0 \<le> (v + 459.67) / 1.8" by simp
    then have "max ((v + 459.67) / 1.8) 0 = (v + 459.67) / 1.8" by (rule max_absorb1)
    then have "max (max ((v + 459.67) / 1.8) 0) 0 * 1.8 - 459.67 = v"
      by (simp only: max.idem Fahrenheit_scale_back)
    then have "Temperature_Convert (max ((v + 459.67) / 1.8) 0) Kelvin Fahrenheit = Inr v"
      by (simp only: Temperature_Convert_Kelvin_Fahrenheit)
    with FK Temperature_Convert_Fahrenheit_Kelvin [of v] show ?thesis
      by blast
  next
    case FF
    with assms(3,4) have "- 459.67 \<le> v"
      by (auto simp add: Temperature_from_Kelvin_def Temperature_units_distinct)
    with FF show ?thesis
      by (simp add: Temperature_Convert_closed_forms max_def)
  qed
qed

text \<open>\<open>ClampTemperature\<close> applied twice to a Fahrenheit or Kelvin value changes nothing more.\<close>

lemma ClampTemperature_idempotent_Fahrenheit_Kelvin:
  "unit \<in> {Fahrenheit, Kelvin} \<Longrightarrow>
   \<exists>r. ClampTemperature val unit = Inr r \<and> ClampTemperature r unit = Inr r"
  by (auto simp add: ClampTemperature_def s_PlanckTemperature_def Temperature_defs Temperature_units_distinct max_def min_def)

text \<open>The alias tables of the eight categories other than Volume have pairwise distinct keys.\<close>

lemma s_Lookup_keys_distinct:
  "distinct (map fst Speed_s_Lookup)" "distinct (map fst Distance_s_Lookup)"
  "distinct (map fst Rotation_s_Lookup)" "distinct (map fst Time_s_Lookup)"
  "distinct (map fst Temperature_s_Lookup)" "distinct (map fst Pressure_s_Lookup)"
  "distinct (map fst Mass_s_Lookup)" "distinct (map fst Area_s_Lookup)"
  by (simp_all add: Speed_s_Lookup_def Distance_s_Lookup_def Rotation_s_Lookup_def
      Time_s_Lookup_def Temperature_s_Lookup_def Pressure_s_Lookup_def Mass_s_Lookup_def
      Area_s_Lookup_def)

subsection \<open>Identity conversion\<close>

text \<open>
  C2 (as amended). In each of the eight linear categories \<open>Convert(v, U, U)\<close> is \<open>v\<close> for every
  unit \<open>U\<close> and every value \<open>v\<close>. In Temperature, \<open>Convert(v, U, U)\<close> is \<open>v\<close> for Kelvin and
  Fahrenheit whenever \<open>v\<close> is not below absolute zero in that unit (0 K, -459.67 degrees
  Fahrenheit); below it the result is absolute zero in that unit.
\<close>

theorem Convert_identity:
  "Speed_Convert v su su = v \<and> Distance_Convert v du du = v \<and> Rotation_Convert v ru ru = v
   \<and> Time_Convert v tu tu = v \<and> Pressure_Convert v pu pu = v \<and> Mass_Convert v mu mu = v
   \<and> Area_Convert v au au = v \<and> Volume_Convert v vu vu = v
   \<and> (0 \<le> v \<longrightarrow> Temperature_Convert v Kelvin Kelvin = Inr v)
   \<and> (v < 0 \<longrightarrow> Temperature_Convert v Kelvin Kelvin = Inr 0)
   \<and> (- 459.67 \<le> v \<longrightarrow> Temperature_Convert v Fahrenheit Fahrenheit = Inr v)
   \<and> (v < - 459.67 \<longrightarrow> Temperature_Convert v Fahrenheit Fahrenheit = Inr (- 459.67))"
  by (simp add: linear_Convert_identity Temperature_Convert_closed_forms max_def)

theorem Convert_identity_witness:
  "(0::real) \<le> 300 \<and> Temperature_Convert 300 Kelvin Kelvin = Inr 300
   \<and> (- 459.67 :: real) \<le> 300 \<and> Temperature_Convert 300 Fahrenheit Fahrenheit = Inr 300
   \<and> (-500 :: real) < 0 \<and> Temperature_Convert (-500) Kelvin Kelvin = Inr 0
   \<and> (-500 :: real) < - 459.67 \<and> Temperature_Convert (-500) Fahrenheit Fahrenheit = Inr (- 459.67)
   \<and> Distance_Convert 300 Kilometre Kilometre = 300"
  using Convert_identity [of 300 _ Kilometre] Convert_identity [of "-500"]
  by simp

text \<open>
  C2 as stated fails in Temperature: the floor at absolute zero turns -1 K into 0 K.
\<close>

theorem Temperature_Convert_identity_counterexample:
  "Temperature_Convert (-1) Kelvin Kelvin = Inr 0
   \<and> Temperature_Convert (-1) Kelvin Kelvin \<noteq> Inr (-1)"
  by (simp add: Temperature_defs Temperature_units_distinct)

subsection \<open>Round trips\<close>

text \<open>
  C3 (as amended). In each of the eight linear categories
  \<open>Convert(Convert(v, A, B), B, A)\<close> is \<open>v\<close> for all units \<open>A\<close>, \<open>B\<close>. In Temperature, for
  \<open>A\<close> and \<open>B\<close> among Fahrenheit and Kelvin the second switch is the inverse of the first,
  and the round trip returns \<open>v\<close> whenever \<open>v\<close> is not below absolute zero in \<open>A\<close>.
\<close>

theorem Convert_round_trip:
  "Speed_Convert (Speed_Convert v sa sb) sb sa = v
   \<and> Distance_Convert (Distance_Convert v da db) db da = v
   \<and> Rotation_Convert (Rotation_Convert v ra rb) rb ra = v
   \<and> Time_Convert (Time_Convert v ta tb) tb ta = v
   \<and> Pressure_Convert (Pressure_Convert v pa pb) pb pa = v
   \<and> Mass_Convert (Mass_Convert v ma mb) mb ma = v
   \<and> Area_Convert (Area_Convert v aa ab) ab aa = v
   \<and> Volume_Convert (Volume_Convert v va vb) vb va = v
   \<and> (a \<in> {Fahrenheit, Kelvin} \<and> Temperature_to_Kelvin v a = Inr k
        \<longrightarrow> Temperature_from_Kelvin k a = Inr v)
   \<and> (a \<in> {Fahrenheit, Kelvin} \<and> b \<in> {Fahrenheit, Kelvin}
        \<and> Temperature_from_Kelvin 0 a = Inr z \<and> z \<le> v
        \<longrightarrow> (\<exists>w. Temperature_Convert v a b = Inr w \<and> Temperature_Convert w b a = Inr v))"
  using Temperature_switches_inverse [of a v k] Temperature_round_trip_above_zero [of a b z v]
  by (simp add: linear_Convert_round_trip)

theorem Convert_round_trip_witness:
  "Kelvin \<in> {Fahrenheit, Kelvin} \<and> Fahrenheit \<in> {Fahrenheit, Kelvin}
   \<and> Temperature_to_Kelvin 300 Kelvin = Inr 300 \<and> Temperature_from_Kelvin 300 Kelvin = Inr 300
   \<and> Temperature_from_Kelvin 0 Kelvin = Inr 0 \<and> (0::real) \<le> 300
   \<and> (\<exists>w. Temperature_Convert 300 Kelvin Fahrenheit = Inr w
         \<and> Temperature_Convert w Fahrenheit Kelvin = Inr 300)"
  using Convert_round_trip [of 300 _ _ _ _ _ _ _ _ _ _ _ _ _ _ _ _ Kelvin 300 Fahrenheit 0]
  by (simp add: Temperature_to_Kelvin_def Temperature_from_Kelvin_def Temperature_units_distinct)

text \<open>
  C3 as stated fails in Temperature: -10 K goes to -459.67 degrees Fahrenheit and comes
  back as 0 K, far outside a relative tolerance of 1e-9.
\<close>

theorem Temperature_Convert_round_trip_counterexample:
  "Temperature_Convert (-10) Kelvin Fahrenheit = Inr (- 459.67)
   \<and> Temperature_Convert (- 459.67) Fahrenheit Kelvin = Inr 0
   \<and> \<not> \<bar>0 - (-10 :: real)\<bar> \<le> (1 / 10 ^ 9) * \<bar>-10\<bar>"
  by (simp add: Temperature_defs Temperature_units_distinct)

subsection \<open>ClampTemperature\<close>

text \<open>
  C5. The claim: \<open>ClampTemperature\<close> is idempotent for Celsius, Fahrenheit and Kelvin. For
  Celsius the source is not: clamping 0 gives 273.15, and clamping 273.15 gives 274.15,
  because the first switch subtracts 272.15 and the second adds 273.15.
\<close>

theorem ClampTemperature_Celsius_twice_eval:
  "ClampTemperature 0 Celsius = Inr 273.15
   \<and> ClampTemperature 273.15 Celsius = Inr 274.15"
  by (simp add: ClampTemperature_def s_PlanckTemperature_def Temperature_defs Temperature_units_distinct)

text \<open>
  C6 (as amended). The Planck temperature constant of the source is 1.42e34 K.
  \<open>ClampTemperature(v, u)\<close> converts \<open>v\<close> from \<open>u\<close> to Kelvin, takes the minimum of that and
  the constant, and converts the clamped value from Kelvin back to \<open>u\<close>; for Kelvin this is
  \<open>min (max v 0) s_PlanckTemperature\<close>, and \<open>ClampTemperature(1e40, Kelvin)\<close> is at most the
  constant.
\<close>

theorem ClampTemperature_Planck:
  "s_PlanckTemperature = 1.42 * 10 ^ 34
   \<and> (unit \<in> {Celsius, Fahrenheit, Kelvin} \<longrightarrow>
        (\<exists>k. Temperature_Convert val unit Kelvin = Inr k
           \<and> ClampTemperature val unit = Temperature_Convert (min k s_PlanckTemperature) Kelvin unit))
   \<and> ClampTemperature val Kelvin = Inr (min (max val 0) s_PlanckTemperature)
   \<and> (\<exists>r. ClampTemperature (10 ^ 40) Kelvin = Inr r \<and> r \<le> s_PlanckTemperature)"
  by (auto simp add: ClampTemperature_def s_PlanckTemperature_def Temperature_defs Temperature_units_distinct max_def min_def)

theorem ClampTemperature_Planck_witness:
  "Fahrenheit \<in> {Celsius, Fahrenheit, Kelvin}
   \<and> (\<exists>k. Temperature_Convert 212 Fahrenheit Kelvin = Inr k
         \<and> ClampTemperature 212 Fahrenheit = Temperature_Convert (min k s_PlanckTemperature) Kelvin Fahrenheit)"
  using ClampTemperature_Planck [of Fahrenheit 212]
  by simp

text \<open>
  C6 as stated gives the constant as about 1.42e35 K; the constant of the source is one
  tenth of that, 90 percent away from it.
\<close>

theorem s_PlanckTemperature_magnitude_counterexample:
  "s_PlanckTemperature * 10 = 1.42 * 10 ^ 35
   \<and> \<bar>s_PlanckTemperature - 1.42 * 10 ^ 35\<bar> / (1.42 * 10 ^ 35) = 0.9"
  by (simp add: s_PlanckTemperature_def)

subsection \<open>Alias tables\<close>

text \<open>
  C7. The claim: within each alias table no alias is mapped to more than one unit. The
  Volume table has the alias \<open>in3\<close> twice, once for \<open>CubicInch\<close> and once for \<open>CubicFoot\<close>.
\<close>

theorem Volume_s_Lookup_in3_twice:
  "(''in3'', CubicInch) \<in> set Volume_s_Lookup
   \<and> (''in3'', CubicFoot) \<in> set Volume_s_Lookup
   \<and> CubicInch \<noteq> CubicFoot
   \<and> \<not> distinct (map fst Volume_s_Lookup)"
  by (simp add: Volume_s_Lookup_def)

subsection \<open>Arc-seconds and metres\<close>

text \<open>
  C8. \<open>ArcSecondsToMetres(arcSeconds, latitudeDegrees)\<close> is
  \<open>arcSeconds * |cos(latitudeDegrees * \<pi>/180) * (1852/60)|\<close>, the latitude defaults to 0,
  and \<open>ArcSecondsToMetres(60, 0)\<close> is 1852.
\<close>

theorem ArcSecondsToMetres_formula:
  "ArcSecondsToMetres arcSeconds lat = arcSeconds * \<bar>cos (lat * pi / 180) * (1852 / 60)\<bar>
   \<and> ArcSecondsToMetres_default arcSeconds = ArcSecondsToMetres arcSeconds 0
   \<and> ArcSecondsToMetres 60 0 = 1852"
  by (simp add: ArcSecondsToMetres_def ArcSecondsToMetres_default_def s_DegreesToRadians_def mult.commute)

text \<open>
  C10. \<open>MetresToArcSeconds(ArcSecondsToMetres(a, L), L)\<close> is \<open>a * cos\<^sup>2(L * \<pi>/180)\<close>, and so
  is the composition in the other order; the two functions are mutual inverses at
  latitude 0; and either composition is the identity at a latitude \<open>L\<close> exactly when
  \<open>|cos(L * \<pi>/180)| = 1\<close>.
\<close>

theorem MetresToArcSeconds_ArcSecondsToMetres:
  "MetresToArcSeconds (ArcSecondsToMetres a L) L = a * (cos (L * pi / 180))\<^sup>2
   \<and> ArcSecondsToMetres (MetresToArcSeconds m L) L = m * (cos (L * pi / 180))\<^sup>2
   \<and> MetresToArcSeconds (ArcSecondsToMetres a 0) 0 = a
   \<and> ArcSecondsToMetres (MetresToArcSeconds m 0) 0 = m
   \<and> ((\<forall>x. MetresToArcSeconds (ArcSecondsToMetres x L) L = x)
        \<longleftrightarrow> \<bar>cos (L * pi / 180)\<bar> = 1)
   \<and> ((\<forall>y. ArcSecondsToMetres (MetresToArcSeconds y L) L = y)
        \<longleftrightarrow> \<bar>cos (L * pi / 180)\<bar> = 1)"
proof -
  let ?c = "cos (L * pi / 180)"
  have sq: "\<bar>?c * (1852 / 60)\<bar> * \<bar>?c / (1852 / 60)\<bar> = ?c\<^sup>2"
  proof -
    have "\<bar>?c * (1852 / 60)\<bar> * \<bar>?c / (1852 / 60)\<bar> = \<bar>?c\<bar> * \<bar>?c\<bar>"
      by (simp add: abs_mult)
    also have "\<dots> = ?c\<^sup>2"
      by (simp add: power2_eq_square flip: abs_mult)
    finally show ?thesis .
  qed
  have comp: "MetresToArcSeconds (ArcSecondsToMetres x L) L = x * ?c\<^sup>2" for x
    using sq
    by (simp add: MetresToArcSeconds_def ArcSecondsToMetres_def s_DegreesToRadians_def
        mult.commute mult.assoc)
  have comp': "ArcSecondsToMetres (MetresToArcSeconds y L) L = y * ?c\<^sup>2" for y
    using sq
    by (simp add: MetresToArcSeconds_def ArcSecondsToMetres_def s_DegreesToRadians_def
        mult.commute mult.assoc)
  have zero1: "MetresToArcSeconds (ArcSecondsToMetres a 0) 0 = a"
    by (simp add: MetresToArcSeconds_def ArcSecondsToMetres_def)
  have zero2: "ArcSecondsToMetres (MetresToArcSeconds m 0) 0 = m"
    by (simp add: MetresToArcSeconds_def ArcSecondsToMetres_def)
  have iff: "(\<forall>x. MetresToArcSeconds (ArcSecondsToMetres x L) L = x) \<longleftrightarrow> \<bar>?c\<bar> = 1"
  proof
    assume "\<forall>x. MetresToArcSeconds (ArcSecondsToMetres x L) L = x"
    then have "MetresToArcSeconds (ArcSecondsToMetres 1 L) L = 1" by blast
    then have "?c\<^sup>2 = 1" by (simp add: comp)
    then show "\<bar>?c\<bar> = 1" by (simp only: abs_square_eq_1)
  next
    assume "\<bar>?c\<bar> = 1"
    then have "?c\<^sup>2 = 1" by (simp only: abs_square_eq_1)
    then show "\<forall>x. MetresToArcSeconds (ArcSecondsToMetres x L) L = x" by (simp add: comp)
  qed
  have iff': "(\<forall>y. ArcSecondsToMetres (MetresToArcSeconds y L) L = y) \<longleftrightarrow> \<bar>?c\<bar> = 1"
  proof
    assume "\<forall>y. ArcSecondsToMetres (MetresToArcSeconds y L) L = y"
    then have "ArcSecondsToMetres (MetresToArcSeconds 1 L) L = 1" by blast
    then have "?c\<^sup>2 = 1" by (simp add: comp')
    then show "\<bar>?c\<bar> = 1" by (simp only: abs_square_eq_1)
  next
    assume "\<bar>?c\<bar> = 1"
    then have "?c\<^sup>2 = 1" by (simp only: abs_square_eq_1)
    then show "\<forall>y. ArcSecondsToMetres (MetresToArcSeconds y L) L = y" by (simp add: comp')
  qed
  from comp comp' zero1 zero2 iff iff' show ?thesis by blast
qed

theorem MetresToArcSeconds_ArcSecondsToMetres_witness:
  "MetresToArcSeconds (ArcSecondsToMetres 8 60) 60 = 2
   \<and> ArcSecondsToMetres (MetresToArcSeconds 8 60) 60 = 2
   \<and> MetresToArcSeconds (ArcSecondsToMetres 8 180) 180 = 8"
  using MetresToArcSeconds_ArcSecondsToMetres [of 8 60 8]
    MetresToArcSeconds_ArcSecondsToMetres [of 8 180] cos_60
  by (simp add: power2_eq_square)

end
